theory Spec2Isabelle
  imports Complex_Main
begin

section \<open>Numbers and their text\<close>

text \<open>
  The pages compute with JavaScript numbers, which are IEEE 754 doubles. A number is
  modelled by the rational it stands for, plus the value \<open>NaN\<close>, which \<open>parseFloat\<close>
  returns for text that does not start with a number and which every arithmetic operation
  passes on. Each arithmetic operation rounds its exact result to the nearest double, as the
  machine does. The two infinities, and with them results beyond the largest double, are
  outside the model.
\<close>

datatype number = NaN | Num rat

text \<open>The number of binary digits of a natural number.\<close>

fun bitlen :: "nat \<Rightarrow> nat" where
  "bitlen n = (if n = 0 then 0 else Suc (bitlen (n div 2)))"

declare bitlen.simps [simp del]

text \<open>For \<open>x > 0\<close>, the integer \<open>l\<close> with \<open>2^l \<le> x < 2^(l+1)\<close>.\<close>

definition floor_log2 :: "rat \<Rightarrow> int" where
  "floor_log2 x =
     (if 1 \<le> x then int (bitlen (nat \<lfloor>x\<rfloor>)) - 1
      else - int (bitlen (nat \<lceil>1 / x\<rceil> - 1)))"

definition pow2 :: "int \<Rightarrow> rat" where
  "pow2 e = (if 0 \<le> e then 2 ^ nat e else 1 / 2 ^ nat (- e))"

text \<open>The nearest integer; of two equally near ones, the even one.\<close>

definition round_half_even :: "rat \<Rightarrow> int" where
  "round_half_even s =
     (let f = \<lfloor>s\<rfloor>; r = s - of_int f
      in if r < 1 / 2 then f else if 1 / 2 < r then f + 1 else if even f then f else f + 1)"

text \<open>
  The double nearest to a rational (round to nearest, ties to even): 53 significant binary
  digits, and below \<open>2^-1022\<close> the fixed spacing \<open>2^-1074\<close> of the subnormal numbers.
\<close>

definition round_double :: "rat \<Rightarrow> rat" where
  "round_double x =
     (if x = 0 then 0
      else (let a = \<bar>x\<bar>;
                e = max (floor_log2 a - 52) (- 1074);
                y = of_int (round_half_even (a / pow2 e)) * pow2 e
            in if x < 0 then - y else y))"

text \<open>A number whose value was read from decimal text, taken as the nearest double.\<close>

fun to_double :: "number \<Rightarrow> number" where
  "to_double NaN = NaN"
| "to_double (Num a) = Num (round_double a)"

fun num_add :: "number \<Rightarrow> number \<Rightarrow> number" where
  "num_add (Num a) (Num b) = Num (round_double (a + b))"
| "num_add _ _ = NaN"

fun num_mul :: "number \<Rightarrow> number \<Rightarrow> number" where
  "num_mul (Num a) (Num b) = Num (round_double (a * b))"
| "num_mul _ _ = NaN"

text \<open>Every divisor in the source is a non-zero literal; a zero divisor reads as \<open>NaN\<close> here.\<close>

fun num_div :: "number \<Rightarrow> number \<Rightarrow> number" where
  "num_div (Num a) (Num b) = (if b = 0 then NaN else Num (round_double (a / b)))"
| "num_div _ _ = NaN"

text \<open>\<open>a >= b\<close>: false as soon as one side is \<open>NaN\<close>.\<close>

fun num_ge :: "number \<Rightarrow> number \<Rightarrow> bool" where
  "num_ge (Num a) (Num b) = (b \<le> a)"
| "num_ge _ _ = False"

definition digit_char :: "nat \<Rightarrow> char" where
  "digit_char d = char_of (48 + d)"

text \<open>The decimal numeral of a natural number, as \<open>String(n)\<close> writes an integer.\<close>

fun decimal :: "nat \<Rightarrow> string" where
  "decimal n = (if n < 10 then [digit_char n] else decimal (n div 10) @ [digit_char (n mod 10)])"

declare decimal.simps [simp del]

fun strip_zeros :: "string \<Rightarrow> string" where
  "strip_zeros [] = []"
| "strip_zeros (c # cs) =
     (case strip_zeros cs of [] \<Rightarrow> (if c = CHR ''0'' then [] else [c]) | r \<Rightarrow> c # r)"

text \<open>
  \<open>Number.prototype.toString\<close> at or above \<open>10^21\<close>, where it switches to scientific
  notation. A double of that size is an integer; the model writes the digits of the nearest
  integer without the trailing zeros, one digit before the point, and the exponent.
\<close>

definition toString_sci :: "rat \<Rightarrow> string" where
  "toString_sci a =
     (let m = decimal (nat \<lfloor>a + 1 / 2\<rfloor>);
          ds = strip_zeros m;
          e = length m - 1
      in (case ds of
            [] \<Rightarrow> ''0''
          | d # rest \<Rightarrow> (if rest = [] then [d] else d # CHR ''.'' # rest) @ ''e+'' @ decimal e))"

text \<open>
  \<open>Number.prototype.toFixed(f)\<close>: \<open>NaN\<close> prints as such; the sign is split off; from
  \<open>10^21\<close> on the result is that of \<open>toString\<close>; below, \<open>n\<close> is the integer nearest
  to \<open>x * 10^f\<close> (the larger one on a tie), written with at least \<open>f + 1\<close> digits and a
  point before the last \<open>f\<close>.
\<close>

definition toFixed :: "nat \<Rightarrow> number \<Rightarrow> string" where
  "toFixed f v =
     (case v of
        NaN \<Rightarrow> ''NaN''
      | Num x \<Rightarrow>
          (let s = (if x < 0 then ''-'' else '''');
               a = \<bar>x\<bar>
           in if 10 ^ 21 \<le> a then s @ toString_sci a
              else
                (let n = nat \<lfloor>a * 10 ^ f + 1 / 2\<rfloor>;
                     m = decimal n;
                     m' = (if f \<noteq> 0
                           then (let k = length m;
                                     z = (if k \<le> f then replicate (f + 1 - k) CHR ''0'' @ m else m);
                                     k' = length z
                                 in take (k' - f) z @ ''.'' @ drop (k' - f) z)
                           else m)
                 in s @ m')))"

section \<open>Market page\<close>

definition formatMarketCap :: "number \<Rightarrow> string" where
  "formatMarketCap value =
     (if num_ge value (Num (10 ^ 9)) then ''$'' @ toFixed 2 (num_div value (Num (10 ^ 9))) @ ''B''
      else if num_ge value (Num (10 ^ 6)) then ''$'' @ toFixed 2 (num_div value (Num (10 ^ 6))) @ ''M''
      else if num_ge value (Num (10 ^ 3)) then ''$'' @ toFixed 2 (num_div value (Num (10 ^ 3))) @ ''K''
      else ''$'' @ toFixed 2 value)"


section \<open>Reading a number from a form field\<close>

definition is_digit :: "char \<Rightarrow> bool" where
  "is_digit c = (c \<in> set ''0123456789'')"

definition is_space :: "char \<Rightarrow> bool" where
  "is_space c = (c \<in> {CHR '' '', CHR 0x09, CHR 0x0A, CHR 0x0B, CHR 0x0C, CHR 0x0D})"

definition digits_val :: "string \<Rightarrow> nat" where
  "digits_val ds = foldl (\<lambda>a c. 10 * a + (of_char c - 48)) 0 ds"

text \<open>An optional sign in front of a numeral: whether it is a minus, and the rest.\<close>

fun sign_split :: "string \<Rightarrow> bool \<times> string" where
  "sign_split [] = (False, [])"
| "sign_split (c # r) =
     (if c = CHR ''-'' then (True, r) else if c = CHR ''+'' then (False, r) else (False, c # r))"

text \<open>The exponent part \<open>e\<plusminus>ddd\<close>, if the text starts with a complete one.\<close>

fun exponent :: "string \<Rightarrow> int" where
  "exponent [] = 0"
| "exponent (c # r) =
     (if c = CHR ''e'' \<or> c = CHR ''E''
      then (let (neg, u) = sign_split r; ds = takeWhile is_digit u
            in if ds = [] then 0
               else if neg then - int (digits_val ds) else int (digits_val ds))
      else 0)"

text \<open>
  \<open>parseFloat\<close>: leading white space is skipped and the longest prefix that is a decimal
  literal (sign, digits, fraction, exponent) is read; \<open>NaN\<close> when there is none. The
  literal \<open>Infinity\<close>, which a numeric input field cannot hold, is not covered. The
  result is the value of the literal; where a page computes with it, \<open>to_double\<close> takes
  the nearest double first.
\<close>

definition parseFloat :: "string \<Rightarrow> number" where
  "parseFloat s =
     (let (neg, u) = sign_split (dropWhile is_space s);
          ip = takeWhile is_digit u;
          r1 = dropWhile is_digit u;
          (fp, r2) = (case r1 of
                        [] \<Rightarrow> ([], r1)
                      | c # r \<Rightarrow> if c = CHR ''.''
                                 then (takeWhile is_digit r, dropWhile is_digit r)
                                 else ([], r1))
      in if ip = [] \<and> fp = [] then NaN
         else (let mant = of_nat (digits_val ip) + of_nat (digits_val fp) / 10 ^ length fp;
                   ex = exponent r2;
                   v = (if 0 \<le> ex then mant * 10 ^ nat ex else mant / 10 ^ nat (- ex))
               in Num (if neg then - v else v)))"

text \<open>
  A number sent to the backend travels as JSON, where \<open>NaN\<close> becomes \<open>null\<close>. A number
  read back from JSON is the double nearest to the decimal in the text, and a \<open>null\<close> used
  in arithmetic counts as \<open>0\<close>.
\<close>

fun to_json :: "number \<Rightarrow> rat option" where
  "to_json NaN = None"
| "to_json (Num a) = Some a"

fun of_json :: "rat option \<Rightarrow> number" where
  "of_json None = Num 0"
| "of_json (Some a) = Num (round_double a)"

section \<open>Assets page: portfolio total\<close>

text \<open>The rows the Assets page holds in \<open>balances\<close>: a balance joined with its coin.\<close>

record balance_coin =
  bc_id :: string
  bc_symbol :: string
  bc_name :: string
  bc_price :: rat

record balance_view =
  bv_id :: string
  bv_balance :: rat
  bv_locked_balance :: rat
  bv_coin :: balance_coin

definition totalValue :: "balance_view list \<Rightarrow> rat" where
  "totalValue balances =
     foldl (\<lambda>sum balance. sum + bv_balance balance * bc_price (bv_coin balance)) 0 balances"

section \<open>Backend tables\<close>

text \<open>
  The tables of the migration, with the columns the pages read or write. A nullable
  numeric column is a \<open>rat option\<close>. Identifiers and timestamps are text. An inserted
  row records its numbers as they were sent.
\<close>

record coin_row =
  c_id :: string
  c_symbol :: string
  c_name :: string
  c_price :: "rat option"
  c_market_cap :: "int option"
  c_volume_24h :: "int option"
  c_is_active :: "bool option"

record balance_row =
  b_id :: string
  b_user_id :: string
  b_coin_id :: string
  b_balance :: "rat option"
  b_locked_balance :: "rat option"

datatype tx_type = Deposit | Withdrawal | Buy | Sell

datatype tx_status = Pending | Completed | Cancelled | Rejected

record transaction_row =
  t_id :: string
  t_user_id :: string
  t_coin_id :: string
  t_type :: tx_type
  t_amount :: rat
  t_status :: tx_status
  t_wallet_address :: "string option"
  t_admin_approved_by :: "string option"
  t_admin_approved_at :: "string option"

datatype order_type = Market | Limit

datatype order_side = BuySide | SellSide

datatype order_status = Open | Filled | OrderCancelled | Partial

record order_row =
  o_id :: string
  o_user_id :: string
  o_base_coin_id :: string
  o_quote_coin_id :: string
  o_type :: order_type
  o_side :: order_side
  o_amount :: rat
  o_price :: "rat option"
  o_filled_amount :: "rat option"
  o_status :: order_status

record db =
  coins :: "coin_row list"
  user_balances :: "balance_row list"
  transactions :: "transaction_row list"
  orders :: "order_row list"

text \<open>
  What the backend answers to a write. \<open>Refused\<close> carries the message of a request that
  ended in an error (network, a value the column refuses). An admitted insert is still
  checked against the NOT NULL columns it leaves empty; the rows the pages insert belong to
  the signed-in user, as the INSERT policies ask. An admitted update changes the rows that
  the UPDATE policy of the table lets the caller at. A read is a lookup in the table: the
  handlers do not look at the error of a read, only at whether data came back.
\<close>

datatype reply = Admitted | Refused string

text \<open>
  Row-level security, as the migration sets it up. It is enabled on all four tables, and
  these are the policies the migration creates: each names a command and either lets
  everyone through (\<open>USING (true)\<close>) or the owner of the row
  (\<open>auth.uid() = user_id\<close>). A command without a policy reaches no row: an UPDATE then
  changes nothing and is no error.
\<close>

datatype table = Coins | User_balances | Transactions | Orders

datatype command = Select | Insert | Update

datatype rule = Everyone | Owner

fun policy :: "table \<Rightarrow> command \<Rightarrow> rule option" where
  "policy Coins Select = Some Everyone"
| "policy User_balances Select = Some Owner"
| "policy User_balances Update = Some Owner"
| "policy User_balances Insert = Some Owner"
| "policy Transactions Select = Some Owner"
| "policy Transactions Insert = Some Owner"
| "policy Orders Select = Some Owner"
| "policy Orders Insert = Some Owner"
| "policy Orders Update = Some Owner"
| "policy _ _ = None"

text \<open>Whether a policy lets the caller at a row; \<open>own\<close> says that the row is the caller's.\<close>

fun admits :: "rule option \<Rightarrow> bool \<Rightarrow> bool" where
  "admits None own = False"
| "admits (Some Everyone) own = True"
| "admits (Some Owner) own = own"

text \<open>
  An UPDATE under row-level security: the rows that match the filter and that the UPDATE
  policy lets the caller at are changed, the others are passed over in silence.
\<close>

definition rls_update ::
  "rule option \<Rightarrow> ('r \<Rightarrow> bool) \<Rightarrow> ('r \<Rightarrow> bool) \<Rightarrow> ('r \<Rightarrow> 'r) \<Rightarrow> 'r list \<Rightarrow> 'r list" where
  "rls_update pol own matches change rows =
     map (\<lambda>r. if matches r \<and> admits pol (own r) then change r else r) rows"

text \<open>
  What a DECIMAL(20, 8) column keeps of a number it is sent: \<open>null\<close> for \<open>NaN\<close>, else
  the value with 8 decimals, rounded half away from zero. (The column refuses a value of
  \<open>10^12\<close> or more; that is a refused request.)
\<close>

definition numeric_20_8 :: "number \<Rightarrow> rat option" where
  "numeric_20_8 x =
     (case x of
        NaN \<Rightarrow> None
      | Num a \<Rightarrow> Some ((if a < 0 then - 1 else 1) * of_int \<lfloor>\<bar>a\<bar> * 10 ^ 8 + 1 / 2\<rfloor> / 10 ^ 8))"

datatype toast = ToastError string | ToastSuccess string

text \<open>\<open>error.message || fallback\<close>\<close>

definition message_or :: "string \<Rightarrow> string \<Rightarrow> string" where
  "message_or msg fallback = (if msg = [] then fallback else msg)"

text \<open>\<open>.single()\<close>: the row when exactly one matches, no data otherwise.\<close>

fun single :: "'a list \<Rightarrow> 'a option" where
  "single [r] = Some r"
| "single _ = None"

definition not_null_violation :: "string \<Rightarrow> string" where
  "not_null_violation col =
     ''null value in column \"'' @ col @ ''\" violates not-null constraint''"

text \<open>
  Insert into \<open>transactions\<close>. The identifier is the one the table generates; the
  approval columns start empty. \<open>user_id\<close> is absent when nobody is signed in and
  \<open>amount\<close> is \<open>null\<close> when the number sent is \<open>NaN\<close>; both columns are NOT NULL.
\<close>

definition insert_transaction ::
  "reply \<Rightarrow> string \<Rightarrow> string option \<Rightarrow> string \<Rightarrow> tx_type \<Rightarrow> number \<Rightarrow> tx_status \<Rightarrow>
   string option \<Rightarrow> db \<Rightarrow> string + db" where
  "insert_transaction wr new_id user_id coin_id type amount status wallet_address d =
     (case wr of
        Refused msg \<Rightarrow> Inl msg
      | Admitted \<Rightarrow>
          (case user_id of
             None \<Rightarrow> Inl (not_null_violation ''user_id'')
           | Some u \<Rightarrow>
               (case to_json amount of
                  None \<Rightarrow> Inl (not_null_violation ''amount'')
                | Some a \<Rightarrow>
                    Inr (d\<lparr>transactions := transactions d @
                           [\<lparr>t_id = new_id, t_user_id = u, t_coin_id = coin_id, t_type = type,
                             t_amount = a, t_status = status,
                             t_wallet_address = wallet_address,
                             t_admin_approved_by = None, t_admin_approved_at = None\<rparr>]\<rparr>))))"

text \<open>
  Insert into \<open>orders\<close>. The request names neither \<open>status\<close> nor \<open>filled_amount\<close>, so
  the row gets the column defaults \<open>open\<close> and \<open>0\<close>.
\<close>

definition insert_order ::
  "reply \<Rightarrow> string \<Rightarrow> string option \<Rightarrow> string \<Rightarrow> string \<Rightarrow> order_type \<Rightarrow> order_side \<Rightarrow>
   number \<Rightarrow> rat option \<Rightarrow> db \<Rightarrow> string + db" where
  "insert_order wr new_id user_id base_coin_id quote_coin_id type side amount price d =
     (case wr of
        Refused msg \<Rightarrow> Inl msg
      | Admitted \<Rightarrow>
          (case user_id of
             None \<Rightarrow> Inl (not_null_violation ''user_id'')
           | Some u \<Rightarrow>
               (case to_json amount of
                  None \<Rightarrow> Inl (not_null_violation ''amount'')
                | Some a \<Rightarrow>
                    Inr (d\<lparr>orders := orders d @
                           [\<lparr>o_id = new_id, o_user_id = u, o_base_coin_id = base_coin_id,
                             o_quote_coin_id = quote_coin_id, o_type = type, o_side = side,
                             o_amount = a, o_price = price, o_filled_amount = Some 0,
                             o_status = Open\<rparr>]\<rparr>))))"

section \<open>Assets page: deposit and withdrawal requests\<close>

text \<open>
  The handlers are modelled from the fields they read to the toast they end with and the
  tables they leave behind. Resetting the form fields and scheduling a reload of the
  page's lists are page-local and not part of the model.
\<close>

definition walletAddresses :: "(string \<times> string) list" where
  "walletAddresses =
     [(''BTC'', ''1LyZHu2xzqYyzLesS7UYecXUTW6AGngBFR''),
      (''ETH'', ''0x1016a1ff1907e77afa6f4889f8796b4c3237252d''),
      (''USDT (ERC20)'', ''0x1016a1ff1907e77afa6f4889f8796b4c3237252d''),
      (''USDT (TRC20)'', ''TBdEXqVLqdrdD2mtPGysRQRQj53PEMsT1o'')]"

text \<open>\<open>from('coins').select('id').eq('symbol', coinSymbol).single()\<close>\<close>

definition coin_by_symbol :: "db \<Rightarrow> string \<Rightarrow> coin_row option" where
  "coin_by_symbol d coinSymbol = single (filter (\<lambda>c. c_symbol c = coinSymbol) (coins d))"

definition handleDeposit ::
  "string option \<Rightarrow> string \<Rightarrow> string \<Rightarrow> string \<Rightarrow> reply \<Rightarrow> db \<Rightarrow> toast \<times> db" where
  "handleDeposit user depositAmount coinSymbol new_id wr d =
     (if depositAmount = [] then (ToastError ''Please enter deposit amount'', d)
      else
        (case coin_by_symbol d coinSymbol of
           None \<Rightarrow> (ToastError ''Coin not found'', d)
         | Some coinData \<Rightarrow>
             (case insert_transaction wr new_id user (c_id coinData) Deposit
                     (parseFloat depositAmount) Pending (map_of walletAddresses coinSymbol) d of
                Inl msg \<Rightarrow> (ToastError (message_or msg ''Failed to submit deposit request''), d)
              | Inr d' \<Rightarrow>
                  (ToastSuccess ''Deposit request submitted! Please wait for admin approval.'',
                   d'))))"

definition handleWithdraw ::
  "string option \<Rightarrow> string \<Rightarrow> string \<Rightarrow> string \<Rightarrow> string \<Rightarrow> reply \<Rightarrow> db \<Rightarrow> toast \<times> db" where
  "handleWithdraw user withdrawAmount withdrawAddress coinSymbol new_id wr d =
     (if withdrawAmount = [] \<or> withdrawAddress = []
      then (ToastError ''Please enter withdrawal amount and address'', d)
      else
        (case coin_by_symbol d coinSymbol of
           None \<Rightarrow> (ToastError ''Coin not found'', d)
         | Some coinData \<Rightarrow>
             (case insert_transaction wr new_id user (c_id coinData) Withdrawal
                     (parseFloat withdrawAmount) Pending (Some withdrawAddress) d of
                Inl msg \<Rightarrow> (ToastError (message_or msg ''Failed to submit withdrawal request''), d)
              | Inr d' \<Rightarrow>
                  (ToastSuccess ''Withdrawal request submitted! Please wait for admin approval.'',
                   d'))))"

section \<open>Admin page\<close>



text \<open>
  The two lines that compute the new price: the percentage field and the price read back
  are doubles, and so is each intermediate result.
\<close>

definition newPrice :: "coin_row \<Rightarrow> string \<Rightarrow> number" where
  "newPrice currentPrice priceChange =
     (let changePercent = num_div (to_double (parseFloat priceChange)) (Num 100)
      in num_mul (of_json (c_price currentPrice)) (num_add (Num 1) changePercent))"

text \<open>
  \<open>update({ price: newPrice }).eq('symbol', 'MOON')\<close>, under the UPDATE policy of
  \<open>coins\<close>; the rows of \<open>coins\<close> have no owner.
\<close>

definition updateMoonPriceByPercentage :: "string \<Rightarrow> reply \<Rightarrow> db \<Rightarrow> toast \<times> db" where
  "updateMoonPriceByPercentage priceChange wr d =
     (if priceChange = [] then (ToastError ''Please enter a percentage change'', d)
      else
        (case coin_by_symbol d ''MOON'' of
           None \<Rightarrow> (ToastError ''Could not fetch current price'', d)
         | Some currentPrice \<Rightarrow>
             (case wr of
                Refused msg \<Rightarrow> (ToastError (message_or msg ''Failed to update MOON price''), d)
              | Admitted \<Rightarrow>
                  (ToastSuccess (''MOON price updated by '' @ priceChange @ ''%!''),
                   d\<lparr>coins :=
                        rls_update (policy Coins Update) (\<lambda>c. False)
                          (\<lambda>c. c_symbol c = ''MOON'')
                          (\<lambda>c. c\<lparr>c_price := numeric_20_8 (newPrice currentPrice priceChange)\<rparr>)
                          (coins d)\<rparr>))))"

section \<open>Trade page\<close>

record trade_coin =
  tc_id :: string
  tc_symbol :: string
  tc_name :: string
  tc_price :: "rat option"

text \<open>What \<open>fetchCoins\<close> puts into the page's \<open>coins\<close>: the active rows of the table.\<close>

definition fetchCoins :: "db \<Rightarrow> trade_coin list" where
  "fetchCoins d =
     map (\<lambda>c. \<lparr>tc_id = c_id c, tc_symbol = c_symbol c, tc_name = c_name c, tc_price = c_price c\<rparr>)
         (filter (\<lambda>c. c_is_active c = Some True) (coins d))"

text \<open>\<open>String.prototype.split\<close> on a one-character separator.\<close>

fun split_on :: "char \<Rightarrow> string \<Rightarrow> string list" where
  "split_on sep [] = [[]]"
| "split_on sep (c # cs) =
     (if c = sep then [] # split_on sep cs
      else (case split_on sep cs of
              [] \<Rightarrow> [[c]]
            | w # ws \<Rightarrow> (c # w) # ws))"

fun nth_opt :: "'a list \<Rightarrow> nat \<Rightarrow> 'a option" where
  "nth_opt [] _ = None"
| "nth_opt (x # xs) 0 = Some x"
| "nth_opt (x # xs) (Suc n) = nth_opt xs n"

text \<open>\<open>coins.find(c => c.symbol === name)?.id\<close>, where \<open>name\<close> may be undefined.\<close>

definition find_id :: "trade_coin list \<Rightarrow> string option \<Rightarrow> string option" where
  "find_id cs name =
     (case name of
        None \<Rightarrow> None
      | Some s \<Rightarrow> map_option tc_id (find (\<lambda>c. tc_symbol c = s) cs))"

text \<open>\<open>!id\<close>: undefined or the empty text.\<close>

definition falsy :: "string option \<Rightarrow> bool" where
  "falsy x = (case x of None \<Rightarrow> True | Some s \<Rightarrow> s = [])"

definition side_label :: "order_side \<Rightarrow> string" where
  "side_label side = (case side of BuySide \<Rightarrow> ''Buy'' | SellSide \<Rightarrow> ''Sell'')"

definition handleTrade ::
  "string option \<Rightarrow> trade_coin list \<Rightarrow> string \<Rightarrow> order_type \<Rightarrow> string \<Rightarrow> string \<Rightarrow>
   order_side \<Rightarrow> string \<Rightarrow> reply \<Rightarrow> db \<Rightarrow> toast \<times> db" where
  "handleTrade user cs selectedPair orderType amount price side new_id wr d =
     (if amount = [] \<or> (orderType = Limit \<and> price = [])
      then (ToastError ''Please fill in all required fields'', d)
      else
        (let parts = split_on CHR ''/'' selectedPair;
             baseId = find_id cs (nth_opt parts 0);
             quoteId = find_id cs (nth_opt parts 1)
         in if falsy baseId \<or> falsy quoteId then (ToastError ''Invalid trading pair'', d)
            else
              (case (baseId, quoteId) of
                 (Some b, Some q) \<Rightarrow>
                   (case insert_order wr new_id user b q orderType side (parseFloat amount)
                           (if orderType = Limit then to_json (parseFloat price) else None) d of
                      Inl msg \<Rightarrow> (ToastError (message_or msg ''Failed to place order''), d)
                    | Inr d' \<Rightarrow>
                        (ToastSuccess (side_label side @ '' order placed successfully!''), d'))
               | _ \<Rightarrow> (ToastError ''Invalid trading pair'', d))))"

section \<open>Statements to compare with\<close>

text \<open>
  A non-negative number with two decimal places, in the words of the specification: the
  integer digits, a point and the two digits after it, of the value rounded to hundredths.
\<close>

definition two_places :: "rat \<Rightarrow> string" where
  "two_places x =
     (let n = nat \<lfloor>x * 100 + 1 / 2\<rfloor>
      in decimal (n div 100) @ ''.'' @ [digit_char (n div 10 mod 10), digit_char (n mod 10)])"

text \<open>
  The tables as the migration seeds them (six active coins, nothing else), and a state with
  one user holding 1 BTC and 100 USDT, a pending deposit and a completed withdrawal.
  The identifiers stand for the generated ones.
\<close>

definition seed_db :: db where
  "seed_db =
     \<lparr>coins =
        [\<lparr>c_id = ''coin-btc'', c_symbol = ''BTC'', c_name = ''Bitcoin'', c_price = Some 43000,
          c_market_cap = Some 0, c_volume_24h = Some 0, c_is_active = Some True\<rparr>,
         \<lparr>c_id = ''coin-eth'', c_symbol = ''ETH'', c_name = ''Ethereum'', c_price = Some 2300,
          c_market_cap = Some 0, c_volume_24h = Some 0, c_is_active = Some True\<rparr>,
         \<lparr>c_id = ''coin-bnb'', c_symbol = ''BNB'', c_name = ''BNB'', c_price = Some 220,
          c_market_cap = Some 0, c_volume_24h = Some 0, c_is_active = Some True\<rparr>,
         \<lparr>c_id = ''coin-xrp'', c_symbol = ''XRP'', c_name = ''XRP'', c_price = Some (52 / 100),
          c_market_cap = Some 0, c_volume_24h = Some 0, c_is_active = Some True\<rparr>,
         \<lparr>c_id = ''coin-usdt'', c_symbol = ''USDT'', c_name = ''Tether'', c_price = Some 1,
          c_market_cap = Some 0, c_volume_24h = Some 0, c_is_active = Some True\<rparr>,
         \<lparr>c_id = ''coin-moon'', c_symbol = ''MOON'', c_name = ''Moon Token'',
          c_price = Some (1 / 1000),
          c_market_cap = Some 0, c_volume_24h = Some 0, c_is_active = Some True\<rparr>],
      user_balances = [], transactions = [], orders = []\<rparr>"

definition demo_db :: db where
  "demo_db =
     seed_db\<lparr>user_balances :=
               [\<lparr>b_id = ''bal-1'', b_user_id = ''user-1'', b_coin_id = ''coin-btc'',
                 b_balance = Some 1, b_locked_balance = Some 0\<rparr>,
                \<lparr>b_id = ''bal-2'', b_user_id = ''user-1'', b_coin_id = ''coin-usdt'',
                 b_balance = Some 100, b_locked_balance = Some 0\<rparr>],
             transactions :=
               [\<lparr>t_id = ''tx-1'', t_user_id = ''user-1'', t_coin_id = ''coin-btc'',
                 t_type = Deposit, t_amount = 5, t_status = Pending,
                 t_wallet_address = Some ''1LyZHu2xzqYyzLesS7UYecXUTW6AGngBFR'',
                 t_admin_approved_by = None, t_admin_approved_at = None\<rparr>,
                \<lparr>t_id = ''tx-2'', t_user_id = ''user-1'', t_coin_id = ''coin-usdt'',
                 t_type = Withdrawal, t_amount = 40, t_status = Completed,
                 t_wallet_address = Some ''TBdEXqVLqdrdD2mtPGysRQRQj53PEMsT1o'',
                 t_admin_approved_by = Some ''admin-1'',
                 t_admin_approved_at = Some ''2025-01-01T00:00:00.000Z''\<rparr>]\<rparr>"

text \<open>
  A coin that is known and active, in the words of the specification: some row of
  \<open>coins\<close> carries the symbol and is marked active.
\<close>

definition active_symbol :: "db \<Rightarrow> string \<Rightarrow> bool" where
  "active_symbol d s = list_ex (\<lambda>c. c_symbol c = s \<and> c_is_active c = Some True) (coins d)"

text \<open>The seeded tables after XRP has been taken off the market.\<close>

definition delisted_db :: db where
  "delisted_db =
     seed_db\<lparr>coins := map (\<lambda>c. if c_symbol c = ''XRP'' then c\<lparr>c_is_active := Some False\<rparr> else c)
                           (coins seed_db)\<rparr>"

section \<open>Facts about numbers and their text\<close>

lemma floor_numeral_quotient:
  "\<lfloor>(numeral a :: rat) / numeral b\<rfloor> = numeral a div numeral b"
  using floor_divide_of_int_eq [of "numeral a" "numeral b", where ?'a = rat] by simp

lemma digit_chars:
  "digit_char 0 = CHR ''0''" "digit_char (Suc 0) = CHR ''1''" "digit_char 2 = CHR ''2''"
  "digit_char 3 = CHR ''3''" "digit_char 4 = CHR ''4''" "digit_char 5 = CHR ''5''"
  "digit_char 6 = CHR ''6''" "digit_char 7 = CHR ''7''" "digit_char 8 = CHR ''8''"
  "digit_char 9 = CHR ''9''"
  by code_simp+

lemma decimal_small: "n < 10 \<Longrightarrow> decimal n = [digit_char n]"
  by (simp add: decimal.simps)

lemma decimal_step: "10 \<le> n \<Longrightarrow> decimal n = decimal (n div 10) @ [digit_char (n mod 10)]"
  by (subst decimal.simps) simp

lemma decimal_nonempty: "decimal n \<noteq> []"
  by (subst decimal.simps) simp

lemma decimal_two:
  assumes "100 \<le> n"
  shows "decimal n = decimal (n div 100) @ [digit_char (n div 10 mod 10), digit_char (n mod 10)]"
proof -
  from assms have a: "10 \<le> n" and b: "10 \<le> n div 10" by auto
  have c: "n div 10 div 10 = n div 100" by (simp add: div_mult2_eq)
  show ?thesis by (simp add: decimal_step [OF a] decimal_step [OF b] c)
qed

text \<open>The padding and the point of \<open>toFixed(2)\<close>, on the digits of any \<open>n\<close>.\<close>

lemma point_two_digits:
  "(let m = decimal n; k = length m;
        z = (if k \<le> 2 then replicate (2 + 1 - k) CHR ''0'' @ m else m);
        k' = length z
    in take (k' - 2) z @ ''.'' @ drop (k' - 2) z)
   = decimal (n div 100) @ ''.'' @ [digit_char (n div 10 mod 10), digit_char (n mod 10)]"
proof -
  consider "n < 10" | "10 \<le> n" "n < 100" | "100 \<le> n" by linarith
  then show ?thesis
  proof cases
    case 1
    then show ?thesis by (simp add: decimal_small digit_chars(1) [symmetric] Let_def)
  next
    case 2
    then have "n div 10 < 10" by simp
    with 2 show ?thesis
      by (simp add: decimal_step decimal_small digit_chars(1) [symmetric] Let_def)
  next
    case 3
    have "decimal (n div 100) \<noteq> []" by (rule decimal_nonempty)
    then have "0 < length (decimal (n div 100))" by simp
    with 3 show ?thesis by (simp add: decimal_two Let_def)
  qed
qed

lemma toFixed_two_places:
  assumes "0 \<le> x" and "x < 10 ^ 21"
  shows "toFixed 2 (Num x) = two_places x"
  using assms point_two_digits [of "nat \<lfloor>x * 100 + 1 / 2\<rfloor>"]
  by (simp add: toFixed_def two_places_def Let_def)

lemma pow2_pos: "0 < pow2 e"
  by (simp add: pow2_def)

lemma round_half_even_bounds:
  assumes "0 \<le> s"
  shows "0 \<le> round_half_even s" and "of_int (round_half_even s) \<le> 2 * s"
proof -
  let ?f = "\<lfloor>s\<rfloor>"
  have f0: "0 \<le> ?f" using assms by simp
  show "0 \<le> round_half_even s"
    using f0 by (simp add: round_half_even_def Let_def)
  show "of_int (round_half_even s) \<le> 2 * s"
  proof (cases "s - of_int ?f < 1 / 2")
    case True
    then have "(of_int (round_half_even s) :: rat) = of_int ?f"
      by (simp add: round_half_even_def Let_def)
    moreover have "(of_int ?f :: rat) \<le> s" by (rule of_int_floor_le)
    ultimately show ?thesis using assms by linarith
  next
    case False
    then have h: "of_int ?f + 1 / 2 \<le> s" by simp
    have "round_half_even s \<le> ?f + 1" by (simp add: round_half_even_def Let_def)
    then have "(of_int (round_half_even s) :: rat) \<le> of_int (?f + 1)" by (simp only: of_int_le_iff)
    also have "\<dots> = of_int ?f + 1" by simp
    also have "\<dots> \<le> 2 * (of_int ?f + 1 / 2)" using f0 by simp
    also have "\<dots> \<le> 2 * s" using h by simp
    finally show ?thesis .
  qed
qed

text \<open>Rounding to a double keeps the sign and at most doubles a value.\<close>

lemma round_double_bounds:
  assumes "0 \<le> x"
  shows "0 \<le> round_double x" and "round_double x \<le> 2 * x"
proof -
  show "0 \<le> round_double x"
  proof (cases "x = 0")
    case True then show ?thesis by (simp add: round_double_def)
  next
    case False
    with assms have px: "0 < x" by simp
    let ?e = "max (floor_log2 x - 52) (- 1074)"
    have "0 \<le> x / pow2 ?e" using px pow2_pos [of ?e] by simp
    from round_half_even_bounds(1) [OF this] pow2_pos [of ?e]
    have "0 \<le> of_int (round_half_even (x / pow2 ?e)) * pow2 ?e" by simp
    with px False show ?thesis by (simp add: round_double_def Let_def)
  qed
  show "round_double x \<le> 2 * x"
  proof (cases "x = 0")
    case True then show ?thesis by (simp add: round_double_def)
  next
    case False
    with assms have px: "0 < x" by simp
    let ?e = "max (floor_log2 x - 52) (- 1074)"
    have nn: "0 \<le> x / pow2 ?e" using px pow2_pos [of ?e] by simp
    from round_half_even_bounds(2) [OF nn]
    have "of_int (round_half_even (x / pow2 ?e)) * pow2 ?e \<le> 2 * (x / pow2 ?e) * pow2 ?e"
      using pow2_pos [of ?e] by (simp only: mult_le_cancel_right_pos)
    also have "\<dots> = 2 * x" using pow2_pos [of ?e] by simp
    finally show ?thesis using px False by (simp add: round_double_def Let_def)
  qed
qed

lemma bitlen_0: "bitlen 0 = 0"
  by (simp add: bitlen.simps)

lemma bitlen_step: "0 < n \<Longrightarrow> bitlen n = Suc (bitlen (n div 2))"
  by (subst bitlen.simps) simp

lemma ceiling_numeral_quotient:
  "\<lceil>(numeral a :: rat) / numeral b\<rceil> = - (- numeral a div numeral b)"
  using floor_divide_of_int_eq [of "- numeral a" "numeral b", where ?'a = rat]
  by (simp add: ceiling_def)

lemmas double_eval =
  round_double_def floor_log2_def pow2_def round_half_even_def Let_def
  bitlen_0 bitlen_step floor_numeral_quotient ceiling_numeral_quotient

lemma foldl_add_sum_list:
  "foldl (\<lambda>s b. s + f b) a xs = a + sum_list (map f xs)" for a :: rat
  by (induction xs arbitrary: a) (simp_all add: add.assoc)

section \<open>Assets page: what the total counts\<close>

text \<open>
  C9. The total shown on the Assets page is the sum, over the rows of \<open>balances\<close>, of
  available balance times coin price. The locked balance does not enter: replacing the
  locked balance of every row by anything else leaves the total as it is.
\<close>

theorem totalValue_available_only:
  "totalValue balances = (\<Sum>b\<leftarrow>balances. bv_balance b * bc_price (bv_coin b))
   \<and> totalValue (map (\<lambda>b. b\<lparr>bv_locked_balance := l b\<rparr>) balances) = totalValue balances"
  by (simp add: totalValue_def foldl_add_sum_list comp_def)

section \<open>Market page: the thresholds of formatMarketCap\<close>

text \<open>
  C10. For a value from \<open>0\<close> up to \<open>10^29\<close> (the page passes market capitalisations
  and volumes, 64-bit integers, all below \<open>10^19\<close>), \<open>formatMarketCap\<close> splits at the
  thresholds \<open>10^9\<close>, \<open>10^6\<close> and \<open>10^3\<close>: it writes \<open>$\<close>, the value divided by the
  threshold reached (the value itself below \<open>10^3\<close>) with two decimal places, and the suffix
  \<open>B\<close>, \<open>M\<close>, \<open>K\<close> or none. The quotient is the double the division gives.
\<close>

theorem formatMarketCap_thresholds:
  assumes "0 \<le> v" and "v < 10 ^ 29"
  shows "formatMarketCap (Num v) =
           (if 10 ^ 9 \<le> v then ''$'' @ two_places (round_double (v / 10 ^ 9)) @ ''B''
            else if 10 ^ 6 \<le> v then ''$'' @ two_places (round_double (v / 10 ^ 6)) @ ''M''
            else if 10 ^ 3 \<le> v then ''$'' @ two_places (round_double (v / 10 ^ 3)) @ ''K''
            else ''$'' @ two_places v)"
proof -
  have fixed: "toFixed 2 (Num (round_double q)) = two_places (round_double q)"
    if "0 \<le> q" and "q < 10 ^ 20" for q
  proof -
    from round_double_bounds [OF that(1)] that(2)
    have "0 \<le> round_double q" and "round_double q < 10 ^ 21" by simp_all
    then show ?thesis by (rule toFixed_two_places)
  qed
  have b: "v / 10 ^ 9 < 10 ^ 20" using assms(2) by (simp add: divide_less_eq)
  have m: "v < 10 ^ 9 \<Longrightarrow> v / 10 ^ 6 < 10 ^ 20" by (simp add: divide_less_eq)
  have k: "v < 10 ^ 6 \<Longrightarrow> v / 10 ^ 3 < 10 ^ 20" by (simp add: divide_less_eq)
  have p: "v < 10 ^ 3 \<Longrightarrow> v < 10 ^ 21" by simp
  have nn: "0 \<le> v / 10 ^ 9" "0 \<le> v / 10 ^ 6" "0 \<le> v / 10 ^ 3" using assms(1) by simp_all
  show ?thesis
    using assms(1) b m k p nn
    by (simp add: formatMarketCap_def fixed toFixed_two_places not_le)
qed

text \<open>
  At 1005 the quotient is the double next below 1.005, so the text is \<open>$1.00K\<close>; at
  1234567890 it is \<open>$1.23B\<close>.
\<close>

theorem formatMarketCap_thresholds_witness:
  "(0::rat) \<le> 1005 \<and> (1005::rat) < 10 ^ 29 \<and> formatMarketCap (Num 1005) = ''$1.00K''
   \<and> (0::rat) \<le> 1234567890 \<and> (1234567890::rat) < 10 ^ 29
   \<and> formatMarketCap (Num 1234567890) = ''$1.23B''"
proof -
  have q1: "round_double (1005 / 10 ^ 3) = 1131529406376837 / 1125899906842624"
    by (simp add: double_eval)
  have e1: "two_places (1131529406376837 / 1125899906842624) = ''1.00''"
    by (simp add: two_places_def floor_numeral_quotient decimal_small decimal_step digit_chars)
  have q2: "round_double (1234567890 / 10 ^ 9) = 5559999489367579 / 4503599627370496"
    by (simp add: double_eval)
  have e2: "two_places (5559999489367579 / 4503599627370496) = ''1.23''"
    by (simp add: two_places_def floor_numeral_quotient decimal_small decimal_step digit_chars)
  from formatMarketCap_thresholds [of 1005]
  have f1: "formatMarketCap (Num 1005) = ''$'' @ two_places (round_double (1005 / 10 ^ 3)) @ ''K''"
    by simp
  from formatMarketCap_thresholds [of 1234567890]
  have f2: "formatMarketCap (Num 1234567890) =
              ''$'' @ two_places (round_double (1234567890 / 10 ^ 9)) @ ''B''"
    by simp
  show ?thesis unfolding f1 f2 q1 q2 e1 e2 by simp
qed

section \<open>Assets page: requests never touch a balance\<close>

lemma to_json_Some: "to_json x = Some a \<longleftrightarrow> x = Num a"
  by (cases x) simp_all

lemma to_json_None: "to_json x = None \<longleftrightarrow> x = NaN"
  by (cases x) simp_all

lemma insert_transaction_Inr:
  "insert_transaction wr new_id user coin ty amount st wa d = Inr d' \<longleftrightarrow>
     wr = Admitted \<and>
     (\<exists>u a. user = Some u \<and> amount = Num a \<and>
        d' = d\<lparr>transactions := transactions d @
               [\<lparr>t_id = new_id, t_user_id = u, t_coin_id = coin, t_type = ty, t_amount = a,
                 t_status = st, t_wallet_address = wa,
                 t_admin_approved_by = None, t_admin_approved_at = None\<rparr>]\<rparr>)"
  by (cases amount) (auto simp: insert_transaction_def split: reply.splits option.splits)

lemma insert_transaction_Inl:
  "(\<exists>msg. insert_transaction wr new_id user coin ty amount st wa d = Inl msg) \<longleftrightarrow>
     \<not> (wr = Admitted \<and> user \<noteq> None \<and> amount \<noteq> NaN)"
  by (cases amount) (auto simp: insert_transaction_def split: reply.splits option.splits)

text \<open>
  C7. \<open>handleDeposit\<close> changes no balance, coin or order, whatever it is given. It
  succeeds exactly when the amount field is filled and reads as a number, the coin is
  found, a user is signed in and the backend admits the insert; it then adds one
  transaction of type deposit in the pending state, with no approval recorded. When it
  ends with an error the tables are as before.
\<close>

theorem handleDeposit_pending_no_balance:
  assumes "handleDeposit user depositAmount coinSymbol new_id wr d = (res, d')"
  shows "user_balances d' = user_balances d \<and> coins d' = coins d \<and> orders d' = orders d
     \<and> ((\<exists>msg. res = ToastSuccess msg) \<longleftrightarrow>
          depositAmount \<noteq> [] \<and> coin_by_symbol d coinSymbol \<noteq> None \<and> user \<noteq> None
          \<and> parseFloat depositAmount \<noteq> NaN \<and> wr = Admitted)
     \<and> (case res of
           ToastError _ \<Rightarrow> d' = d
         | ToastSuccess _ \<Rightarrow>
             (\<exists>t. transactions d' = transactions d @ [t] \<and> t_status t = Pending
                \<and> t_type t = Deposit \<and> Some (t_user_id t) = user
                \<and> map_option c_id (coin_by_symbol d coinSymbol) = Some (t_coin_id t)
                \<and> Num (t_amount t) = parseFloat depositAmount
                \<and> t_admin_approved_by t = None \<and> t_admin_approved_at t = None))"
proof (cases "depositAmount = []")
  case True
  with assms show ?thesis by (auto simp: handleDeposit_def)
next
  case ne: False
  show ?thesis
  proof (cases "coin_by_symbol d coinSymbol")
    case None
    with assms ne show ?thesis by (auto simp: handleDeposit_def)
  next
    case (Some coinData)
    show ?thesis
    proof (cases "insert_transaction wr new_id user (c_id coinData) Deposit
                    (parseFloat depositAmount) Pending (map_of walletAddresses coinSymbol) d")
      case (Inl msg)
      then have "\<not> (wr = Admitted \<and> user \<noteq> None \<and> parseFloat depositAmount \<noteq> NaN)"
        using insert_transaction_Inl by blast
      with assms ne Some Inl show ?thesis by (auto simp: handleDeposit_def)
    next
      case (Inr d2)
      then have "wr = Admitted \<and>
        (\<exists>u a. user = Some u \<and> parseFloat depositAmount = Num a \<and>
          d2 = d\<lparr>transactions := transactions d @
               [\<lparr>t_id = new_id, t_user_id = u, t_coin_id = c_id coinData, t_type = Deposit,
                 t_amount = a, t_status = Pending,
                 t_wallet_address = map_of walletAddresses coinSymbol,
                 t_admin_approved_by = None, t_admin_approved_at = None\<rparr>]\<rparr>)"
        by (simp only: insert_transaction_Inr)
      with assms ne Some Inr show ?thesis by (auto simp: handleDeposit_def)
    qed
  qed
qed

lemma demo_deposit:
  "handleDeposit (Some ''user-1'') ''0.25'' ''BTC'' ''tx-3'' Admitted demo_db =
     (ToastSuccess ''Deposit request submitted! Please wait for admin approval.'',
      demo_db\<lparr>transactions := transactions demo_db @
         [\<lparr>t_id = ''tx-3'', t_user_id = ''user-1'', t_coin_id = ''coin-btc'', t_type = Deposit,
           t_amount = 1 / 4, t_status = Pending,
           t_wallet_address = Some ''1LyZHu2xzqYyzLesS7UYecXUTW6AGngBFR'',
           t_admin_approved_by = None, t_admin_approved_at = None\<rparr>]\<rparr>)"
  by (simp add: handleDeposit_def coin_by_symbol_def demo_db_def seed_db_def
      insert_transaction_def parseFloat_def is_digit_def is_space_def digits_val_def
      walletAddresses_def)


theorem handleDeposit_pending_no_balance_witness:
  "handleDeposit (Some ''user-1'') ''0.25'' ''BTC'' ''tx-3'' Admitted demo_db =
     (ToastSuccess ''Deposit request submitted! Please wait for admin approval.'',
      demo_db\<lparr>transactions := transactions demo_db @
         [\<lparr>t_id = ''tx-3'', t_user_id = ''user-1'', t_coin_id = ''coin-btc'', t_type = Deposit,
           t_amount = 1 / 4, t_status = Pending,
           t_wallet_address = Some ''1LyZHu2xzqYyzLesS7UYecXUTW6AGngBFR'',
           t_admin_approved_by = None, t_admin_approved_at = None\<rparr>]\<rparr>)
   \<and> user_balances
         (snd (handleDeposit (Some ''user-1'') ''0.25'' ''BTC'' ''tx-3'' Admitted demo_db))
       = user_balances demo_db"
  using handleDeposit_pending_no_balance [OF demo_deposit] demo_deposit by simp

text \<open>
  A withdrawal of 5 BTC by a user whose available balance is 1 BTC is accepted, and the
  balance rows stay as they are: nothing is checked and nothing is locked.
\<close>

theorem handleWithdraw_unbacked_counterexample:
  "handleWithdraw (Some ''user-1'') ''5'' ''bc1-destination'' ''BTC'' ''tx-3'' Admitted demo_db =
     (ToastSuccess ''Withdrawal request submitted! Please wait for admin approval.'',
      demo_db\<lparr>transactions := transactions demo_db @
         [\<lparr>t_id = ''tx-3'', t_user_id = ''user-1'', t_coin_id = ''coin-btc'',
           t_type = Withdrawal, t_amount = 5, t_status = Pending,
           t_wallet_address = Some ''bc1-destination'',
           t_admin_approved_by = None, t_admin_approved_at = None\<rparr>]\<rparr>)
   \<and> user_balances demo_db =
       [\<lparr>b_id = ''bal-1'', b_user_id = ''user-1'', b_coin_id = ''coin-btc'',
         b_balance = Some 1, b_locked_balance = Some 0\<rparr>,
        \<lparr>b_id = ''bal-2'', b_user_id = ''user-1'', b_coin_id = ''coin-usdt'',
         b_balance = Some 100, b_locked_balance = Some 0\<rparr>]"
  by (simp add: handleWithdraw_def coin_by_symbol_def demo_db_def seed_db_def
      insert_transaction_def parseFloat_def is_digit_def is_space_def digits_val_def)

text \<open>
  C1, as the code has it. \<open>handleWithdraw\<close> neither reads nor changes a balance: it
  succeeds exactly when the amount and address fields are filled, the amount reads as a
  number, the coin is found, a user is signed in and the backend admits the insert,
  whatever the user holds. On success it adds one transaction of type withdrawal in the
  pending state; available and locked balances are the same before and after every call.
\<close>

theorem handleWithdraw_no_lock:
  assumes "handleWithdraw user withdrawAmount withdrawAddress coinSymbol new_id wr d = (res, d')"
  shows "user_balances d' = user_balances d \<and> coins d' = coins d \<and> orders d' = orders d
     \<and> ((\<exists>msg. res = ToastSuccess msg) \<longleftrightarrow>
          withdrawAmount \<noteq> [] \<and> withdrawAddress \<noteq> [] \<and> coin_by_symbol d coinSymbol \<noteq> None
          \<and> user \<noteq> None \<and> parseFloat withdrawAmount \<noteq> NaN \<and> wr = Admitted)
     \<and> (case res of
           ToastError _ \<Rightarrow> d' = d
         | ToastSuccess _ \<Rightarrow>
             (\<exists>t. transactions d' = transactions d @ [t] \<and> t_status t = Pending
                \<and> t_type t = Withdrawal \<and> Some (t_user_id t) = user
                \<and> map_option c_id (coin_by_symbol d coinSymbol) = Some (t_coin_id t)
                \<and> Num (t_amount t) = parseFloat withdrawAmount
                \<and> t_wallet_address t = Some withdrawAddress))"
proof (cases "withdrawAmount = [] \<or> withdrawAddress = []")
  case True
  with assms show ?thesis by (auto simp: handleWithdraw_def)
next
  case ne: False
  show ?thesis
  proof (cases "coin_by_symbol d coinSymbol")
    case None
    with assms ne show ?thesis by (auto simp: handleWithdraw_def)
  next
    case (Some coinData)
    show ?thesis
    proof (cases "insert_transaction wr new_id user (c_id coinData) Withdrawal
                    (parseFloat withdrawAmount) Pending (Some withdrawAddress) d")
      case (Inl msg)
      then have "\<not> (wr = Admitted \<and> user \<noteq> None \<and> parseFloat withdrawAmount \<noteq> NaN)"
        using insert_transaction_Inl by blast
      with assms ne Some Inl show ?thesis by (auto simp: handleWithdraw_def)
    next
      case (Inr d2)
      then have "wr = Admitted \<and>
        (\<exists>u a. user = Some u \<and> parseFloat withdrawAmount = Num a \<and>
          d2 = d\<lparr>transactions := transactions d @
               [\<lparr>t_id = new_id, t_user_id = u, t_coin_id = c_id coinData, t_type = Withdrawal,
                 t_amount = a, t_status = Pending,
                 t_wallet_address = Some withdrawAddress,
                 t_admin_approved_by = None, t_admin_approved_at = None\<rparr>]\<rparr>)"
        by (simp only: insert_transaction_Inr)
      with assms ne Some Inr show ?thesis by (auto simp: handleWithdraw_def)
    qed
  qed
qed

lemma demo_withdraw:
  "handleWithdraw (Some ''user-1'') ''0.5'' ''bc1-destination'' ''BTC'' ''tx-3'' Admitted demo_db =
     (ToastSuccess ''Withdrawal request submitted! Please wait for admin approval.'',
      demo_db\<lparr>transactions := transactions demo_db @
         [\<lparr>t_id = ''tx-3'', t_user_id = ''user-1'', t_coin_id = ''coin-btc'',
           t_type = Withdrawal, t_amount = 1 / 2, t_status = Pending,
           t_wallet_address = Some ''bc1-destination'',
           t_admin_approved_by = None, t_admin_approved_at = None\<rparr>]\<rparr>)"
  by (simp add: handleWithdraw_def coin_by_symbol_def demo_db_def seed_db_def
      insert_transaction_def parseFloat_def is_digit_def is_space_def digits_val_def)

theorem handleWithdraw_no_lock_witness:
  "handleWithdraw (Some ''user-1'') ''0.5'' ''bc1-destination'' ''BTC'' ''tx-3'' Admitted demo_db =
     (ToastSuccess ''Withdrawal request submitted! Please wait for admin approval.'',
      demo_db\<lparr>transactions := transactions demo_db @
         [\<lparr>t_id = ''tx-3'', t_user_id = ''user-1'', t_coin_id = ''coin-btc'',
           t_type = Withdrawal, t_amount = 1 / 2, t_status = Pending,
           t_wallet_address = Some ''bc1-destination'',
           t_admin_approved_by = None, t_admin_approved_at = None\<rparr>]\<rparr>)
   \<and> user_balances
         (snd (handleWithdraw (Some ''user-1'') ''0.5'' ''bc1-destination'' ''BTC'' ''tx-3''
                 Admitted demo_db))
       = user_balances demo_db"
  using handleWithdraw_no_lock [OF demo_withdraw] demo_withdraw by simp

section \<open>Admin page: what an approval can change\<close>

lemma rls_update_none: "rls_update None own matches change rows = rows"
  by (simp add: rls_update_def)

lemma rls_update_nth:
  "i < length rows \<Longrightarrow>
     rls_update pol own matches change rows ! i =
       (if matches (rows ! i) \<and> admits pol (own (rows ! i)) then change (rows ! i) else rows ! i)"
  by (simp add: rls_update_def)









section \<open>Admin page: price change by percentage\<close>

lemma updateMoonPriceByPercentage_tables:
  "snd (updateMoonPriceByPercentage priceChange wr d) = d"
  by (cases wr)
     (simp_all add: updateMoonPriceByPercentage_def rls_update_none split: option.split)

text \<open>
  C6. On the seeded tables the administrator enters 5. The handler computes the double
  next to \<open>0.001 * (1 + 5 / 100)\<close> (JavaScript prints it as 0.0010500000000000002), sends it
  and reports success; the table \<open>coins\<close> has no UPDATE policy, so the update reaches no
  row and the price of MOON is 0.001 as before.
\<close>

theorem updateMoonPriceByPercentage_price_stays:
  "coin_by_symbol seed_db ''MOON'' =
     Some \<lparr>c_id = ''coin-moon'', c_symbol = ''MOON'', c_name = ''Moon Token'',
           c_price = Some (1 / 1000), c_market_cap = Some 0, c_volume_24h = Some 0,
           c_is_active = Some True\<rparr>
   \<and> newPrice \<lparr>c_id = ''coin-moon'', c_symbol = ''MOON'', c_name = ''Moon Token'',
                c_price = Some (1 / 1000), c_market_cap = Some 0, c_volume_24h = Some 0,
                c_is_active = Some True\<rparr> ''5''
       = Num (2421135159674379 / 2305843009213693952)
   \<and> updateMoonPriceByPercentage ''5'' Admitted seed_db =
       (ToastSuccess ''MOON price updated by 5%!'', seed_db)"
proof -
  have m: "coin_by_symbol seed_db ''MOON'' =
     Some \<lparr>c_id = ''coin-moon'', c_symbol = ''MOON'', c_name = ''Moon Token'',
           c_price = Some (1 / 1000), c_market_cap = Some 0, c_volume_24h = Some 0,
           c_is_active = Some True\<rparr>"
    by (simp add: coin_by_symbol_def seed_db_def)
  have p: "parseFloat ''5'' = Num 5"
    by (simp add: parseFloat_def is_digit_def is_space_def digits_val_def)
  have c1: "num_div (to_double (parseFloat ''5'')) (Num 100) =
              Num (3602879701896397 / 72057594037927936)"
    by (simp add: p double_eval)
  have c2: "num_add (Num 1) (Num (3602879701896397 / 72057594037927936)) =
              Num (4728779608739021 / 4503599627370496)"
    by (simp add: double_eval)
  have c3: "of_json (Some (1 / 1000)) = Num (1152921504606847 / 1152921504606846976)"
    by (simp add: double_eval)
  have c4: "num_mul (Num (1152921504606847 / 1152921504606846976))
              (Num (4728779608739021 / 4503599627370496)) =
              Num (2421135159674379 / 2305843009213693952)"
    by (simp add: double_eval)
  have n: "newPrice \<lparr>c_id = ''coin-moon'', c_symbol = ''MOON'', c_name = ''Moon Token'',
                c_price = Some (1 / 1000), c_market_cap = Some 0, c_volume_24h = Some 0,
                c_is_active = Some True\<rparr> ''5''
       = Num (2421135159674379 / 2305843009213693952)"
    unfolding newPrice_def Let_def c1 c2 by (simp only: coin_row.select_convs c3 c4)
  have u: "updateMoonPriceByPercentage ''5'' Admitted seed_db =
       (ToastSuccess ''MOON price updated by 5%!'', seed_db)"
    unfolding updateMoonPriceByPercentage_def m by (simp add: rls_update_none)
  from m n u show ?thesis by simp
qed

section \<open>Trade page: orders are recorded, nothing is locked\<close>

lemma falsy_iff: "falsy x \<longleftrightarrow> x = None \<or> x = Some []"
  by (cases x) (simp_all add: falsy_def)

lemma not_falsy: "\<not> falsy x \<Longrightarrow> \<exists>s. x = Some s \<and> s \<noteq> []"
  by (cases x) (simp_all add: falsy_def)

lemma split_on_none: "sep \<notin> set b \<Longrightarrow> split_on sep b = [b]"
  by (induction b) auto

lemma split_on_pair:
  "sep \<notin> set a \<Longrightarrow> sep \<notin> set b \<Longrightarrow> split_on sep (a @ sep # b) = [a, b]"
  by (induction a) (auto simp: split_on_none)

lemma find_fetchCoins_None:
  "find (\<lambda>c. tc_symbol c = s) (fetchCoins d) = None \<longleftrightarrow> \<not> active_symbol d s"
  by (auto simp: find_None_iff fetchCoins_def active_symbol_def list_ex_iff)

text \<open>The two ways \<open>handleTrade\<close> can end.\<close>

lemma handleTrade_ok:
  assumes "amount \<noteq> []" and "orderType = Limit \<longrightarrow> price \<noteq> []"
    and "find_id cs (nth_opt (split_on CHR ''/'' selectedPair) 0) = Some b" and "b \<noteq> []"
    and "find_id cs (nth_opt (split_on CHR ''/'' selectedPair) 1) = Some q" and "q \<noteq> []"
    and "parseFloat amount = Num a"
  shows "handleTrade (Some u) cs selectedPair orderType amount price side new_id Admitted d =
           (ToastSuccess (side_label side @ '' order placed successfully!''),
            d\<lparr>orders := orders d @
                 [\<lparr>o_id = new_id, o_user_id = u, o_base_coin_id = b, o_quote_coin_id = q,
                   o_type = orderType, o_side = side, o_amount = a,
                   o_price = (if orderType = Limit then to_json (parseFloat price) else None),
                   o_filled_amount = Some 0, o_status = Open\<rparr>]\<rparr>)"
  using assms by (simp add: handleTrade_def Let_def falsy_def insert_order_def)

lemma handleTrade_fail:
  assumes "\<not> (amount \<noteq> [] \<and> (orderType = Limit \<longrightarrow> price \<noteq> [])
              \<and> \<not> falsy (find_id cs (nth_opt (split_on CHR ''/'' selectedPair) 0))
              \<and> \<not> falsy (find_id cs (nth_opt (split_on CHR ''/'' selectedPair) 1))
              \<and> user \<noteq> None \<and> parseFloat amount \<noteq> NaN \<and> wr = Admitted)"
  shows "\<exists>msg. handleTrade user cs selectedPair orderType amount price side new_id wr d =
           (ToastError msg, d)"
proof -
  let ?b = "find_id cs (nth_opt (split_on CHR ''/'' selectedPair) 0)"
  let ?q = "find_id cs (nth_opt (split_on CHR ''/'' selectedPair) 1)"
  consider "amount = [] \<or> (orderType = Limit \<and> price = [])"
    | "\<not> (amount = [] \<or> (orderType = Limit \<and> price = []))" "falsy ?b \<or> falsy ?q"
    | "\<not> (amount = [] \<or> (orderType = Limit \<and> price = []))" "\<not> falsy ?b" "\<not> falsy ?q"
      "user = None \<or> parseFloat amount = NaN \<or> wr \<noteq> Admitted"
    using assms by blast
  then show ?thesis
  proof cases
    case 1
    then show ?thesis by (simp add: handleTrade_def)
  next
    case 2
    then show ?thesis by (simp add: handleTrade_def Let_def)
  next
    case 3
    from 3(2,3) obtain b q where bq: "?b = Some b" "?q = Some q"
      by (auto simp: falsy_iff)
    from 3(4) have "\<exists>msg. insert_order wr new_id user b q orderType side (parseFloat amount)
                     (if orderType = Limit then to_json (parseFloat price) else None) d = Inl msg"
      by (cases wr; cases user; cases "parseFloat amount") (simp_all add: insert_order_def)
    then obtain msg where "insert_order wr new_id user b q orderType side (parseFloat amount)
                     (if orderType = Limit then to_json (parseFloat price) else None) d = Inl msg"
      by blast
    with 3(1,2,3) bq show ?thesis by (simp add: handleTrade_def Let_def)
  qed
qed


lemma handleTrade_success_iff:
  "(\<exists>msg d'. handleTrade user cs selectedPair orderType amount price side new_id wr d =
       (ToastSuccess msg, d'))
   \<longleftrightarrow> amount \<noteq> [] \<and> (orderType = Limit \<longrightarrow> price \<noteq> [])
       \<and> \<not> falsy (find_id cs (nth_opt (split_on CHR ''/'' selectedPair) 0))
       \<and> \<not> falsy (find_id cs (nth_opt (split_on CHR ''/'' selectedPair) 1))
       \<and> user \<noteq> None \<and> parseFloat amount \<noteq> NaN \<and> wr = Admitted"
  (is "?L \<longleftrightarrow> ?R")
proof
  assume l: ?L
  show ?R
  proof (rule ccontr)
    assume n: "\<not> ?R"
    from handleTrade_fail [OF n, of side new_id d] obtain m where
      "handleTrade user cs selectedPair orderType amount price side new_id wr d = (ToastError m, d)"
      by blast
    with l show False by simp
  qed
next
  assume r: ?R
  then have r1: "amount \<noteq> []" and r2: "orderType = Limit \<longrightarrow> price \<noteq> []"
    and r3: "\<not> falsy (find_id cs (nth_opt (split_on CHR ''/'' selectedPair) 0))"
    and r4: "\<not> falsy (find_id cs (nth_opt (split_on CHR ''/'' selectedPair) 1))"
    and r5: "user \<noteq> None" and r6: "parseFloat amount \<noteq> NaN" and r7: "wr = Admitted"
    by blast+
  from not_falsy [OF r3] obtain b where
    b: "find_id cs (nth_opt (split_on CHR ''/'' selectedPair) 0) = Some b" "b \<noteq> []" by blast
  from not_falsy [OF r4] obtain q where
    q: "find_id cs (nth_opt (split_on CHR ''/'' selectedPair) 1) = Some q" "q \<noteq> []" by blast
  from r5 obtain u where u: "user = Some u" by blast
  from r6 obtain a where a: "parseFloat amount = Num a" by (cases "parseFloat amount") simp_all
  note ok = handleTrade_ok [OF r1 r2 b q a, of u side new_id d]
  show ?L unfolding u r7 ok by blast
qed

lemma handleTrade_success:
  assumes "handleTrade user cs selectedPair orderType amount price side new_id wr d =
             (ToastSuccess msg, d')"
  shows "\<exists>u b q a. user = Some u \<and> parseFloat amount = Num a
           \<and> find_id cs (nth_opt (split_on CHR ''/'' selectedPair) 0) = Some b
           \<and> find_id cs (nth_opt (split_on CHR ''/'' selectedPair) 1) = Some q
           \<and> (orderType = Limit \<longrightarrow> price \<noteq> [])
           \<and> d' = d\<lparr>orders := orders d @
                 [\<lparr>o_id = new_id, o_user_id = u, o_base_coin_id = b, o_quote_coin_id = q,
                   o_type = orderType, o_side = side, o_amount = a,
                   o_price = (if orderType = Limit then to_json (parseFloat price) else None),
                   o_filled_amount = Some 0, o_status = Open\<rparr>]\<rparr>"
proof -
  from assms have "\<exists>msg d'. handleTrade user cs selectedPair orderType amount price side new_id wr d =
       (ToastSuccess msg, d')" by blast
  then have r: "amount \<noteq> [] \<and> (orderType = Limit \<longrightarrow> price \<noteq> [])
       \<and> \<not> falsy (find_id cs (nth_opt (split_on CHR ''/'' selectedPair) 0))
       \<and> \<not> falsy (find_id cs (nth_opt (split_on CHR ''/'' selectedPair) 1))
       \<and> user \<noteq> None \<and> parseFloat amount \<noteq> NaN \<and> wr = Admitted"
    by (rule handleTrade_success_iff [THEN iffD1])
  then have r1: "amount \<noteq> []" and r2: "orderType = Limit \<longrightarrow> price \<noteq> []"
    and r3: "\<not> falsy (find_id cs (nth_opt (split_on CHR ''/'' selectedPair) 0))"
    and r4: "\<not> falsy (find_id cs (nth_opt (split_on CHR ''/'' selectedPair) 1))"
    and r5: "user \<noteq> None" and r6: "parseFloat amount \<noteq> NaN" and r7: "wr = Admitted"
    by blast+
  from not_falsy [OF r3] obtain b where
    b: "find_id cs (nth_opt (split_on CHR ''/'' selectedPair) 0) = Some b" "b \<noteq> []" by blast
  from not_falsy [OF r4] obtain q where
    q: "find_id cs (nth_opt (split_on CHR ''/'' selectedPair) 1) = Some q" "q \<noteq> []" by blast
  from r5 obtain u where u: "user = Some u" by blast
  from r6 obtain a where a: "parseFloat amount = Num a" by (cases "parseFloat amount") simp_all
  note ok = handleTrade_ok [OF r1 r2 b q a, of u side new_id d]
  from assms have "d' = d\<lparr>orders := orders d @
                 [\<lparr>o_id = new_id, o_user_id = u, o_base_coin_id = b, o_quote_coin_id = q,
                   o_type = orderType, o_side = side, o_amount = a,
                   o_price = (if orderType = Limit then to_json (parseFloat price) else None),
                   o_filled_amount = Some 0, o_status = Open\<rparr>]\<rparr>"
    unfolding u r7 ok by simp
  with u a b(1) q(1) r2 show ?thesis by blast
qed

lemma handleTrade_error:
  assumes "handleTrade user cs selectedPair orderType amount price side new_id wr d =
             (ToastError msg, d')"
  shows "d' = d"
proof (cases "amount \<noteq> [] \<and> (orderType = Limit \<longrightarrow> price \<noteq> [])
       \<and> \<not> falsy (find_id cs (nth_opt (split_on CHR ''/'' selectedPair) 0))
       \<and> \<not> falsy (find_id cs (nth_opt (split_on CHR ''/'' selectedPair) 1))
       \<and> user \<noteq> None \<and> parseFloat amount \<noteq> NaN \<and> wr = Admitted")
  case True
  then have "\<exists>m d2. handleTrade user cs selectedPair orderType amount price side new_id wr d =
       (ToastSuccess m, d2)"
    by (rule handleTrade_success_iff [THEN iffD2])
  with assms show ?thesis by simp
next
  case False
  from handleTrade_fail [OF False, of side new_id d] assms show ?thesis by simp
qed


lemmas trade_eval =
  handleTrade_def fetchCoins_def demo_db_def seed_db_def find_id_def falsy_def insert_order_def
  parseFloat_def is_digit_def is_space_def digits_val_def side_label_def Let_def

text \<open>
  A limit buy of 2 BTC at 100 USDT needs 200 USDT; the buyer has 100 available. The order
  is accepted all the same, and the balance rows stay as they are.
\<close>

theorem handleTrade_unfunded_counterexample:
  "handleTrade (Some ''user-1'') (fetchCoins demo_db) ''BTC/USDT'' Limit ''2'' ''100'' BuySide
     ''ord-1'' Admitted demo_db =
     (ToastSuccess ''Buy order placed successfully!'',
      demo_db\<lparr>orders :=
         [\<lparr>o_id = ''ord-1'', o_user_id = ''user-1'', o_base_coin_id = ''coin-btc'',
           o_quote_coin_id = ''coin-usdt'', o_type = Limit, o_side = BuySide, o_amount = 2,
           o_price = Some 100, o_filled_amount = Some 0, o_status = Open\<rparr>]\<rparr>)
   \<and> user_balances demo_db =
       [\<lparr>b_id = ''bal-1'', b_user_id = ''user-1'', b_coin_id = ''coin-btc'',
         b_balance = Some 1, b_locked_balance = Some 0\<rparr>,
        \<lparr>b_id = ''bal-2'', b_user_id = ''user-1'', b_coin_id = ''coin-usdt'',
         b_balance = Some 100, b_locked_balance = Some 0\<rparr>]"
  by (simp add: trade_eval)

text \<open>
  C4, as the code has it. \<open>handleTrade\<close> neither reads nor changes a balance, for a buy
  as for a sell: no funds move from available to locked and no call fails for lack of
  funds. It succeeds exactly when the amount field is filled and reads as a number, a limit
  order has its price field filled, both symbols of the pair are found among the page's
  coins, a user is signed in and the backend admits the insert. On success one order is
  added, open and unfilled, with the given side, kind, amount and the two coins of the pair;
  on an error the tables are as before.
\<close>

theorem handleTrade_no_lock:
  assumes "handleTrade user cs selectedPair orderType amount price side new_id wr d = (res, d')"
  shows "user_balances d' = user_balances d \<and> coins d' = coins d
     \<and> transactions d' = transactions d
     \<and> ((\<exists>msg. res = ToastSuccess msg) \<longleftrightarrow>
          amount \<noteq> [] \<and> (orderType = Limit \<longrightarrow> price \<noteq> [])
          \<and> \<not> falsy (find_id cs (nth_opt (split_on CHR ''/'' selectedPair) 0))
          \<and> \<not> falsy (find_id cs (nth_opt (split_on CHR ''/'' selectedPair) 1))
          \<and> user \<noteq> None \<and> parseFloat amount \<noteq> NaN \<and> wr = Admitted)
     \<and> (case res of
           ToastError _ \<Rightarrow> d' = d
         | ToastSuccess _ \<Rightarrow>
             (\<exists>row. orders d' = orders d @ [row] \<and> o_status row = Open
                \<and> o_filled_amount row = Some 0 \<and> o_side row = side \<and> o_type row = orderType
                \<and> Num (o_amount row) = parseFloat amount \<and> Some (o_user_id row) = user
                \<and> Some (o_base_coin_id row) =
                    find_id cs (nth_opt (split_on CHR ''/'' selectedPair) 0)
                \<and> Some (o_quote_coin_id row) =
                    find_id cs (nth_opt (split_on CHR ''/'' selectedPair) 1)))"
proof -
  have iff: "(\<exists>msg. res = ToastSuccess msg) \<longleftrightarrow>
          amount \<noteq> [] \<and> (orderType = Limit \<longrightarrow> price \<noteq> [])
          \<and> \<not> falsy (find_id cs (nth_opt (split_on CHR ''/'' selectedPair) 0))
          \<and> \<not> falsy (find_id cs (nth_opt (split_on CHR ''/'' selectedPair) 1))
          \<and> user \<noteq> None \<and> parseFloat amount \<noteq> NaN \<and> wr = Admitted"
  proof -
    have "(\<exists>msg. res = ToastSuccess msg) \<longleftrightarrow>
            (\<exists>msg d2. handleTrade user cs selectedPair orderType amount price side new_id wr d =
               (ToastSuccess msg, d2))"
      using assms by auto
    then show ?thesis by (simp only: handleTrade_success_iff)
  qed
  show ?thesis
  proof (cases res)
    case (ToastError m)
    with assms have "d' = d" by (simp add: handleTrade_error)
    with ToastError iff show ?thesis by simp
  next
    case (ToastSuccess m)
    with assms have "handleTrade user cs selectedPair orderType amount price side new_id wr d =
             (ToastSuccess m, d')" by simp
    from handleTrade_success [OF this] obtain u b q a where
      h: "user = Some u" "parseFloat amount = Num a"
         "find_id cs (nth_opt (split_on CHR ''/'' selectedPair) 0) = Some b"
         "find_id cs (nth_opt (split_on CHR ''/'' selectedPair) 1) = Some q"
      and d': "d' = d\<lparr>orders := orders d @
                 [\<lparr>o_id = new_id, o_user_id = u, o_base_coin_id = b, o_quote_coin_id = q,
                   o_type = orderType, o_side = side, o_amount = a,
                   o_price = (if orderType = Limit then to_json (parseFloat price) else None),
                   o_filled_amount = Some 0, o_status = Open\<rparr>]\<rparr>"
      by blast
    have fr: "user_balances d' = user_balances d \<and> coins d' = coins d
       \<and> transactions d' = transactions d"
      by (simp add: d')
    have ord: "\<exists>row. orders d' = orders d @ [row] \<and> o_status row = Open
                \<and> o_filled_amount row = Some 0 \<and> o_side row = side \<and> o_type row = orderType
                \<and> Num (o_amount row) = parseFloat amount \<and> Some (o_user_id row) = user
                \<and> Some (o_base_coin_id row) =
                    find_id cs (nth_opt (split_on CHR ''/'' selectedPair) 0)
                \<and> Some (o_quote_coin_id row) =
                    find_id cs (nth_opt (split_on CHR ''/'' selectedPair) 1)"
      using h by (simp add: d')
    from fr ord iff ToastSuccess show ?thesis by simp
  qed
qed

lemma demo_sell:
  "handleTrade (Some ''user-1'') (fetchCoins demo_db) ''BTC/USDT'' Market ''0.5'' [] SellSide
     ''ord-1'' Admitted demo_db =
     (ToastSuccess ''Sell order placed successfully!'',
      demo_db\<lparr>orders :=
         [\<lparr>o_id = ''ord-1'', o_user_id = ''user-1'', o_base_coin_id = ''coin-btc'',
           o_quote_coin_id = ''coin-usdt'', o_type = Market, o_side = SellSide,
           o_amount = 1 / 2, o_price = None, o_filled_amount = Some 0, o_status = Open\<rparr>]\<rparr>)"
  by (simp add: trade_eval)

theorem handleTrade_no_lock_witness:
  "handleTrade (Some ''user-1'') (fetchCoins demo_db) ''BTC/USDT'' Market ''0.5'' [] SellSide
     ''ord-1'' Admitted demo_db =
     (ToastSuccess ''Sell order placed successfully!'',
      demo_db\<lparr>orders :=
         [\<lparr>o_id = ''ord-1'', o_user_id = ''user-1'', o_base_coin_id = ''coin-btc'',
           o_quote_coin_id = ''coin-usdt'', o_type = Market, o_side = SellSide,
           o_amount = 1 / 2, o_price = None, o_filled_amount = Some 0, o_status = Open\<rparr>]\<rparr>)
   \<and> user_balances
         (snd (handleTrade (Some ''user-1'') (fetchCoins demo_db) ''BTC/USDT'' Market ''0.5'' []
                 SellSide ''ord-1'' Admitted demo_db))
       = user_balances demo_db"
  using handleTrade_no_lock [OF demo_sell] demo_sell by simp

text \<open>
  A market order with the amount \<open>0\<close> is not turned away: it is stored with amount 0.
\<close>

theorem handleTrade_zero_amount_counterexample:
  "parseFloat ''0'' = Num 0
   \<and> handleTrade (Some ''user-1'') (fetchCoins demo_db) ''ETH/USDT'' Market ''0'' [] BuySide
       ''ord-1'' Admitted demo_db =
       (ToastSuccess ''Buy order placed successfully!'',
        demo_db\<lparr>orders :=
           [\<lparr>o_id = ''ord-1'', o_user_id = ''user-1'', o_base_coin_id = ''coin-eth'',
             o_quote_coin_id = ''coin-usdt'', o_type = Market, o_side = BuySide,
             o_amount = 0, o_price = None, o_filled_amount = Some 0, o_status = Open\<rparr>]\<rparr>)"
  by (simp add: trade_eval)

text \<open>
  C5, as the code has it. For a pair written \<open>base/quote\<close> and the page's coins as
  \<open>fetchCoins\<close> loads them, \<open>handleTrade\<close> ends with an error and leaves the tables
  untouched when the amount field is empty, when the order is a limit order and the price
  field is empty (both: "Please fill in all required fields"), and otherwise when the base
  or the quote symbol is unknown or inactive ("Invalid trading pair"). The sign of the
  amount is not looked at.
\<close>

theorem handleTrade_rejects_before_insert:
  assumes "selectedPair = base @ ''/'' @ quote"
    and "CHR ''/'' \<notin> set base" and "CHR ''/'' \<notin> set quote"
    and "amount = [] \<or> (orderType = Limit \<and> price = [])
         \<or> \<not> active_symbol d base \<or> \<not> active_symbol d quote"
  shows "handleTrade user (fetchCoins d) selectedPair orderType amount price side new_id wr d =
           (ToastError (if amount = [] \<or> (orderType = Limit \<and> price = [])
                        then ''Please fill in all required fields''
                        else ''Invalid trading pair''), d)"
proof (cases "amount = [] \<or> (orderType = Limit \<and> price = [])")
  case True
  then show ?thesis by (simp add: handleTrade_def)
next
  case False
  have parts: "split_on CHR ''/'' selectedPair = [base, quote]"
    using assms(1-3) split_on_pair [of "CHR ''/''" base quote] by simp
  from False assms(4) have "\<not> active_symbol d base \<or> \<not> active_symbol d quote" by blast
  then have "find (\<lambda>c. tc_symbol c = base) (fetchCoins d) = None
           \<or> find (\<lambda>c. tc_symbol c = quote) (fetchCoins d) = None"
    by (simp add: find_fetchCoins_None)
  then have "falsy (find_id (fetchCoins d) (nth_opt [base, quote] 0))
           \<or> falsy (find_id (fetchCoins d) (nth_opt [base, quote] 1))"
    by (auto simp: find_id_def falsy_def)
  with False parts show ?thesis by (simp add: handleTrade_def Let_def)
qed

theorem handleTrade_rejects_before_insert_witness:
  "\<not> active_symbol delisted_db ''XRP''
   \<and> handleTrade (Some ''user-1'') (fetchCoins delisted_db) ''XRP/USDT'' Market ''3'' [] BuySide
       ''ord-1'' Admitted delisted_db
     = (ToastError ''Invalid trading pair'', delisted_db)"
proof -
  have a: "\<not> active_symbol delisted_db ''XRP''"
    by (simp add: active_symbol_def delisted_db_def seed_db_def)
  have p: "''XRP/USDT'' = ''XRP'' @ ''/'' @ ''USDT''" by simp
  have s: "CHR ''/'' \<notin> set ''XRP''" "CHR ''/'' \<notin> set ''USDT''" by simp_all
  from a have h: "''3'' = [] \<or> (Market = Limit \<and> ([]::string) = [])
         \<or> \<not> active_symbol delisted_db ''XRP'' \<or> \<not> active_symbol delisted_db ''USDT''"
    by simp
  from handleTrade_rejects_before_insert [OF p s h] a show ?thesis by simp
qed




end
